theory Spec2Isabelle
  imports Complex_Main
begin

section \<open>Strings of the host language\<close>

text \<open>
  A Python \<open>str\<close> is modelled as a \<open>string\<close>: a list of characters whose codes are read as
  the code points U+0000 to U+00FF. The character classes below are those of
  \<open>str.isspace\<close>, of the regular-expression classes \<open>\\d\<close>, \<open>\\s\<close>, \<open>\\w\<close> on \<open>str\<close>
  patterns, and of \<open>str.lower\<close>, restricted to that range.
\<close>

definition py_isdigit :: "char \<Rightarrow> bool" where
  "py_isdigit c = (48 \<le> (of_char c :: nat) \<and> (of_char c :: nat) \<le> 57)"

definition py_isspace :: "char \<Rightarrow> bool" where
  "py_isspace c = (let n = (of_char c :: nat) in
     (9 \<le> n \<and> n \<le> 13) \<or> (28 \<le> n \<and> n \<le> 32) \<or> n = 133 \<or> n = 160)"

definition py_isword :: "char \<Rightarrow> bool" where
  "py_isword c = (let n = (of_char c :: nat) in
     (48 \<le> n \<and> n \<le> 57) \<or> (65 \<le> n \<and> n \<le> 90) \<or> n = 95 \<or> (97 \<le> n \<and> n \<le> 122)
     \<or> n = 170 \<or> n = 178 \<or> n = 179 \<or> n = 181 \<or> n = 185 \<or> n = 186
     \<or> n = 188 \<or> n = 189 \<or> n = 190
     \<or> (192 \<le> n \<and> n \<le> 214) \<or> (216 \<le> n \<and> n \<le> 246) \<or> 248 \<le> n)"

definition py_lower_char :: "char \<Rightarrow> char" where
  "py_lower_char c = (let n = (of_char c :: nat) in
     if (65 \<le> n \<and> n \<le> 90) \<or> (192 \<le> n \<and> n \<le> 222 \<and> n \<noteq> 215)
     then char_of (n + 32) else c)"

definition py_lower :: "string \<Rightarrow> string" where
  "py_lower s = map py_lower_char s"

text \<open>\<open>sub in s\<close>: the substring test.\<close>

fun py_in :: "string \<Rightarrow> string \<Rightarrow> bool" where
  "py_in sub [] = (sub = [])"
| "py_in sub (c # cs) = (take (length sub) (c # cs) = sub \<or> py_in sub cs)"

text \<open>\<open>s.strip()\<close> and \<open>s.strip(chars)\<close>.\<close>

definition strip_with :: "(char \<Rightarrow> bool) \<Rightarrow> string \<Rightarrow> string" where
  "strip_with p s = rev (dropWhile p (rev (dropWhile p s)))"

definition py_strip :: "string \<Rightarrow> string" where
  "py_strip s = strip_with py_isspace s"

definition py_strip_chars :: "string \<Rightarrow> string \<Rightarrow> string" where
  "py_strip_chars chars s = strip_with (\<lambda>c. c \<in> set chars) s"

text \<open>\<open>s.split()\<close>: the maximal runs of non-whitespace characters, in order.\<close>

fun split_go :: "string \<Rightarrow> string \<Rightarrow> string list" where
  "split_go cur [] = (if cur = [] then [] else [rev cur])"
| "split_go cur (c # cs) =
     (if py_isspace c then (if cur = [] then split_go [] cs else rev cur # split_go [] cs)
      else split_go (c # cur) cs)"

definition py_split :: "string \<Rightarrow> string list" where
  "py_split s = split_go [] s"

text \<open>\<open>s.replace(a, b)\<close> for one-character \<open>a\<close> and \<open>b\<close>, the only use in the program.\<close>

definition replace_char :: "char \<Rightarrow> char \<Rightarrow> string \<Rightarrow> string" where
  "replace_char a b s = map (\<lambda>c. if c = a then b else c) s"

text \<open>
  \<open>s.title()\<close> on the letters A-Z and a-z: a letter that follows a non-letter is upper-cased,
  a letter that follows a letter is lower-cased. The program applies it to a category name,
  which the category patterns restrict to those letters and whitespace.
\<close>

definition is_ascii_letter :: "char \<Rightarrow> bool" where
  "is_ascii_letter c = (let n = (of_char c :: nat) in
     (65 \<le> n \<and> n \<le> 90) \<or> (97 \<le> n \<and> n \<le> 122))"

definition ascii_upper :: "char \<Rightarrow> char" where
  "ascii_upper c = (let n = (of_char c :: nat) in
     if 97 \<le> n \<and> n \<le> 122 then char_of (n - 32) else c)"

definition ascii_lower :: "char \<Rightarrow> char" where
  "ascii_lower c = (let n = (of_char c :: nat) in
     if 65 \<le> n \<and> n \<le> 90 then char_of (n + 32) else c)"

fun title_go :: "bool \<Rightarrow> string \<Rightarrow> string" where
  "title_go inword [] = []"
| "title_go inword (c # cs) =
     (if is_ascii_letter c
      then (if inword then ascii_lower c else ascii_upper c) # title_go True cs
      else c # title_go False cs)"

definition py_title :: "string \<Rightarrow> string" where
  "py_title s = title_go False s"

text \<open>\<open>sep.join(xs)\<close>.\<close>

fun py_join :: "string \<Rightarrow> string list \<Rightarrow> string" where
  "py_join sep [] = []"
| "py_join sep [x] = x"
| "py_join sep (x # y # ys) = x @ sep @ py_join sep (y # ys)"

section \<open>Exceptions and numeric conversions\<close>

datatype error = ValueError | OverflowError | IndexError | ParserError | StoreError

text \<open>The value of a string of decimal digits.\<close>

definition digit_val :: "char \<Rightarrow> nat" where
  "digit_val c = (of_char c :: nat) - 48"

definition digits_val :: "string \<Rightarrow> nat" where
  "digits_val s = foldl (\<lambda>acc c. 10 * acc + digit_val c) 0 s"

definition all_digits :: "string \<Rightarrow> bool" where
  "all_digits s = (s \<noteq> [] \<and> list_all py_isdigit s)"

text \<open>
  \<open>int(s)\<close>: a non-empty string of decimal digits is converted, every other string raises
  ValueError. The strings the program converts are captures that start with a digit or a
  letter and hold no whitespace, sign or underscore, and on those this is what \<open>int\<close> does.
\<close>

definition py_int :: "string \<Rightarrow> error + nat" where
  "py_int s = (if all_digits s then Inr (digits_val s) else Inl ValueError)"

text \<open>
  \<open>float(s)\<close> on decimal literals: an optional sign, digits, and an optional fraction.
  The result is the exact decimal value (binary rounding is not modelled); every other
  string raises ValueError.
\<close>

definition unsigned_float :: "string \<Rightarrow> error + rat" where
  "unsigned_float s =
     (let ip = takeWhile (\<lambda>c. c \<noteq> CHR ''.'') s; rest = dropWhile (\<lambda>c. c \<noteq> CHR ''.'') s in
      if rest = [] then (if all_digits ip then Inr (of_nat (digits_val ip)) else Inl ValueError)
      else (let fp = tl rest in
        if (ip = [] \<or> all_digits ip) \<and> (fp = [] \<or> all_digits fp) \<and> \<not> (ip = [] \<and> fp = [])
        then Inr (of_nat (digits_val ip) + of_nat (digits_val fp) / of_nat (10 ^ length fp))
        else Inl ValueError))"

definition py_float :: "string \<Rightarrow> error + rat" where
  "py_float s =
     (case s of
        [] \<Rightarrow> Inl ValueError
      | c # cs \<Rightarrow>
          if c = CHR ''-'' then (case unsigned_float cs of Inl e \<Rightarrow> Inl e | Inr v \<Rightarrow> Inr (- v))
          else if c = CHR ''+'' then unsigned_float cs
          else unsigned_float s)"

section \<open>Regular expressions\<close>

text \<open>
  The patterns of the program use literals, the classes \<open>\\d\<close>, \<open>\\s\<close>, \<open>.\<close> and \<open>[-/]\<close>,
  the anchors \<open>\\b\<close> and \<open>$\<close>, sequence, alternation, greedy and lazy repetition and
  capturing groups. The matcher below is the backtracking matcher of the \<open>re\<close> module on
  that fragment: it lists the ways a pattern can match at a position in the order in which
  backtracking tries them, so the head of the list is the match that \<open>re\<close> reports.
\<close>

datatype rx =
    Eps
  | Lit char
  | Dig
  | Spc
  | Dot
  | OneOf string
  | WordB
  | Eos
  | Seq rx rx
  | Alt rx rx
  | Star rx
  | LStar rx
  | Grp nat rx

text \<open>
  A matcher state: the character before the current position (for \<open>\\b\<close>), the text that
  is left, and the groups captured so far, the latest capture first.
\<close>

type_synonym mstate = "char option \<times> string \<times> (nat \<times> string) list"

definition atom :: "(char \<Rightarrow> bool) \<Rightarrow> mstate \<Rightarrow> mstate list" where
  "atom p st = (case st of (prev, rest, g) \<Rightarrow>
     (case rest of [] \<Rightarrow> [] | c # cs \<Rightarrow> if p c then [(Some c, cs, g)] else []))"

definition at_boundary :: "mstate \<Rightarrow> bool" where
  "at_boundary st = (case st of (prev, rest, g) \<Rightarrow>
     (case prev of None \<Rightarrow> False | Some c \<Rightarrow> py_isword c)
     \<noteq> (case rest of [] \<Rightarrow> False | c # cs \<Rightarrow> py_isword c))"

definition at_end :: "mstate \<Rightarrow> bool" where
  "at_end st = (case st of (prev, rest, g) \<Rightarrow> rest = [] \<or> rest = [CHR 0x0A])"

definition shorter :: "mstate \<Rightarrow> mstate \<Rightarrow> bool" where
  "shorter st' st = (length (fst (snd st')) < length (fst (snd st)))"

definition capture :: "nat \<Rightarrow> mstate \<Rightarrow> mstate \<Rightarrow> mstate" where
  "capture k st st' = (case st of (prev, rest, g) \<Rightarrow> (case st' of (prev', rest', g') \<Rightarrow>
     (prev', rest', (k, take (length rest - length rest') rest) # g')))"

text \<open>
  \<open>ms ic r st\<close>: the states after a match of \<open>r\<close> from \<open>st\<close>, in backtracking order;
  \<open>ic\<close> is the IGNORECASE flag. A repetition goes round again only after an iteration
  that consumed text, as the \<open>re\<close> module does.
\<close>

function (sequential) ms :: "bool \<Rightarrow> rx \<Rightarrow> mstate \<Rightarrow> mstate list" where
  "ms ic Eps st = [st]"
| "ms ic (Lit c) st =
     atom (\<lambda>x. if ic then py_lower_char x = py_lower_char c else x = c) st"
| "ms ic Dig st = atom py_isdigit st"
| "ms ic Spc st = atom py_isspace st"
| "ms ic Dot st = atom (\<lambda>x. x \<noteq> CHR 0x0A) st"
| "ms ic (OneOf cs) st = atom (\<lambda>x. x \<in> set cs) st"
| "ms ic WordB st = (if at_boundary st then [st] else [])"
| "ms ic Eos st = (if at_end st then [st] else [])"
| "ms ic (Seq r1 r2) st = concat (map (ms ic r2) (ms ic r1 st))"
| "ms ic (Alt r1 r2) st = ms ic r1 st @ ms ic r2 st"
| "ms ic (Star r) st =
     concat (map (ms ic (Star r)) (filter (\<lambda>st'. shorter st' st) (ms ic r st))) @ [st]"
| "ms ic (LStar r) st =
     st # concat (map (ms ic (LStar r)) (filter (\<lambda>st'. shorter st' st) (ms ic r st)))"
| "ms ic (Grp k r) st = map (capture k st) (ms ic r st)"
  by pat_completeness auto
termination
  by (relation "inv_image (less_than <*lex*> less_than)
        (\<lambda>(ic, r, st). (size r, length (fst (snd st))))") (auto simp: shorter_def)

text \<open>Derived forms: \<open>r?\<close>, \<open>r+\<close>, \<open>r+?\<close>, a literal word, a sequence, an alternation.\<close>

definition opt :: "rx \<Rightarrow> rx" where
  "opt r = Alt r Eps"

definition plus :: "rx \<Rightarrow> rx" where
  "plus r = Seq r (Star r)"

definition lplus :: "rx \<Rightarrow> rx" where
  "lplus r = Seq r (LStar r)"

fun lits :: "string \<Rightarrow> rx" where
  "lits [] = Eps"
| "lits [c] = Lit c"
| "lits (c # cs) = Seq (Lit c) (lits cs)"

fun seqs :: "rx list \<Rightarrow> rx" where
  "seqs [] = Eps"
| "seqs [r] = r"
| "seqs (r # rs) = Seq r (seqs rs)"

fun alts :: "rx list \<Rightarrow> rx" where
  "alts [] = Eps"
| "alts [r] = r"
| "alts (r # rs) = Alt r (alts rs)"

text \<open>A match object: the matched text and the groups.\<close>

record rmatch =
  m_text :: string
  m_groups :: "(nat \<times> string) list"

definition first_match :: "bool \<Rightarrow> rx \<Rightarrow> char option \<Rightarrow> string \<Rightarrow> rmatch option" where
  "first_match ic r prev s =
     (case ms ic r (prev, s, []) of
        [] \<Rightarrow> None
      | st # _ \<Rightarrow> Some \<lparr>m_text = take (length s - length (fst (snd st))) s,
                        m_groups = snd (snd st)\<rparr>)"

text \<open>\<open>re.match\<close>: a match at the start of the string.\<close>

definition re_match :: "bool \<Rightarrow> rx \<Rightarrow> string \<Rightarrow> rmatch option" where
  "re_match ic r s = first_match ic r None s"

text \<open>\<open>re.search\<close>: the match at the leftmost position that has one.\<close>

fun search_go :: "bool \<Rightarrow> rx \<Rightarrow> char option \<Rightarrow> string \<Rightarrow> rmatch option" where
  "search_go ic r prev [] = first_match ic r prev []"
| "search_go ic r prev (c # cs) =
     (case first_match ic r prev (c # cs) of
        Some m \<Rightarrow> Some m
      | None \<Rightarrow> search_go ic r (Some c) cs)"

definition re_search :: "bool \<Rightarrow> rx \<Rightarrow> string \<Rightarrow> rmatch option" where
  "re_search ic r s = search_go ic r None s"

text \<open>\<open>match.group(k)\<close>; a group that the match does not hold raises IndexError.\<close>

definition group :: "rmatch \<Rightarrow> nat \<Rightarrow> error + string" where
  "group m k = (case map_of (m_groups m) k of None \<Rightarrow> Inl IndexError | Some s \<Rightarrow> Inr s)"

text \<open>
  \<open>re.sub(r, rep, s)\<close> with a plain replacement text: the non-overlapping matches are
  replaced from left to right. The third argument of \<open>sub_go\<close> counts the characters of
  the current match that are still to be dropped. An empty match is replaced too and the
  scan then asks for a non-empty match at the same position before it moves on (no
  pattern of the program matches the empty string).
\<close>

definition match_lens :: "bool \<Rightarrow> rx \<Rightarrow> char option \<Rightarrow> string \<Rightarrow> nat list" where
  "match_lens ic r prev s =
     map (\<lambda>st. length s - length (fst (snd st))) (ms ic r (prev, s, []))"

fun sub_go :: "bool \<Rightarrow> rx \<Rightarrow> string \<Rightarrow> char option \<Rightarrow> nat \<Rightarrow> string \<Rightarrow> string" where
  "sub_go ic r rep prev (Suc k) [] = []"
| "sub_go ic r rep prev (Suc k) (c # cs) = sub_go ic r rep (Some c) k cs"
| "sub_go ic r rep prev 0 [] = (if match_lens ic r prev [] = [] then [] else rep)"
| "sub_go ic r rep prev 0 (c # cs) =
     (case match_lens ic r prev (c # cs) of
        [] \<Rightarrow> c # sub_go ic r rep (Some c) 0 cs
      | n # ns \<Rightarrow>
          if 0 < n then rep @ sub_go ic r rep (Some c) (n - 1) cs
          else (case filter (\<lambda>m. 0 < m) ns of
                  [] \<Rightarrow> rep @ c # sub_go ic r rep (Some c) 0 cs
                | m # _ \<Rightarrow> rep @ rep @ sub_go ic r rep (Some c) (m - 1) cs))"

definition re_sub :: "bool \<Rightarrow> rx \<Rightarrow> string \<Rightarrow> string \<Rightarrow> string" where
  "re_sub ic r rep s = sub_go ic r rep None 0 s"

section \<open>Dates and times\<close>

text \<open>
  The \<open>datetime\<close> objects of the standard library, as far as the program uses them: the
  fields, the addition of a whole number of days, and \<open>strftime\<close> with the one format of
  the program. A \<open>datetime\<close> object always has its fields in range (\<open>valid_dt\<close>), with
  years from 1 to 9999; an addition that leaves that range raises OverflowError, and so
  does a \<open>timedelta\<close> of more than 999999999 days.
\<close>

record datetime =
  year :: nat
  month :: nat
  day :: nat
  hour :: nat
  minute :: nat
  second :: nat
  microsecond :: nat

definition is_leap :: "nat \<Rightarrow> bool" where
  "is_leap y = (y mod 4 = 0 \<and> (y mod 100 \<noteq> 0 \<or> y mod 400 = 0))"

definition days_in_month :: "nat \<Rightarrow> nat \<Rightarrow> nat" where
  "days_in_month y m =
     (if m = 2 then (if is_leap y then 29 else 28)
      else if m = 4 \<or> m = 6 \<or> m = 9 \<or> m = 11 then 30 else 31)"

definition valid_dt :: "datetime \<Rightarrow> bool" where
  "valid_dt d =
     (1 \<le> year d \<and> year d \<le> 9999 \<and> 1 \<le> month d \<and> month d \<le> 12
      \<and> 1 \<le> day d \<and> day d \<le> days_in_month (year d) (month d)
      \<and> hour d < 24 \<and> minute d < 60 \<and> second d < 60 \<and> microsecond d < 1000000)"

definition next_day :: "datetime \<Rightarrow> datetime" where
  "next_day d =
     (if day d < days_in_month (year d) (month d) then d\<lparr>day := day d + 1\<rparr>
      else if month d < 12 then d\<lparr>month := month d + 1, day := 1\<rparr>
      else d\<lparr>year := year d + 1, month := 1, day := 1\<rparr>)"

text \<open>\<open>d + timedelta(days=n)\<close> for \<open>n \<ge> 0\<close>.\<close>

definition plus_days :: "datetime \<Rightarrow> nat \<Rightarrow> error + datetime" where
  "plus_days d n =
     (if 999999999 < n then Inl OverflowError
      else (let d' = (next_day ^^ n) d in
            if 9999 < year d' then Inl OverflowError else Inr d'))"

text \<open>
  The proleptic Gregorian ordinal of a date (\<open>date.toordinal\<close>): 1 for 0001-01-01.
\<close>

definition days_before_year :: "nat \<Rightarrow> nat" where
  "days_before_year y = (let z = y - 1 in z * 365 + z div 4 - z div 100 + z div 400)"

definition days_before_month :: "nat \<Rightarrow> nat \<Rightarrow> nat" where
  "days_before_month y m = (\<Sum>k \<leftarrow> [1..<m]. days_in_month y k)"

definition toordinal :: "datetime \<Rightarrow> nat" where
  "toordinal d = days_before_year (year d) + days_before_month (year d) (month d) + day d"

definition digit_char :: "nat \<Rightarrow> char" where
  "digit_char n = ''0123456789'' ! (n mod 10)"

definition pad2 :: "nat \<Rightarrow> string" where
  "pad2 n = [digit_char (n div 10), digit_char n]"

definition pad4 :: "nat \<Rightarrow> string" where
  "pad4 n = [digit_char (n div 1000), digit_char (n div 100), digit_char (n div 10), digit_char n]"

text \<open>\<open>d.strftime('%Y-%m-%d %H:%M:%S+00:00')\<close>.\<close>

definition strftime :: "datetime \<Rightarrow> string" where
  "strftime d =
     pad4 (year d) @ ''-'' @ pad2 (month d) @ ''-'' @ pad2 (day d) @ '' ''
     @ pad2 (hour d) @ '':'' @ pad2 (minute d) @ '':'' @ pad2 (second d) @ ''+00:00''"

text \<open>The shape \<open>YYYY-MM-DD HH:MM:SS+00:00\<close>.\<close>

definition stamp_shape :: "string \<Rightarrow> bool" where
  "stamp_shape s =
     (case s of
        [y1, y2, y3, y4, a, m1, m2, b, d1, d2, c, h1, h2, e, n1, n2, f, s1, s2, z1, z2, z3, z4, z5, z6] \<Rightarrow>
          list_all py_isdigit [y1, y2, y3, y4, m1, m2, d1, d2, h1, h2, n1, n2, s1, s2]
          \<and> [a, b, c, e, f] = ''-- ::'' \<and> [z1, z2, z3, z4, z5, z6] = ''+00:00''
      | _ \<Rightarrow> False)"

text \<open>\<open>d.time() == datetime.min.time()\<close>: midnight to the microsecond.\<close>

definition time_is_min :: "datetime \<Rightarrow> bool" where
  "time_is_min d = (hour d = 0 \<and> minute d = 0 \<and> second d = 0 \<and> microsecond d = 0)"

section \<open>The date resolver\<close>

text \<open>
  \<open>parse_date\<close> reads the clock (\<open>now\<close>, the value of \<open>datetime.now()\<close>) and calls
  \<open>dateutil.parser.parse\<close>, a library outside the repository: it is the parameter
  \<open>cal_parse\<close>, which returns \<open>None\<close> when the library raises. \<open>parse_date_try\<close> is the
  body of the \<open>try\<close>, \<open>parse_date\<close> adds the handler of the bare \<open>except\<close>.
\<close>

definition fmt_plus_days :: "datetime \<Rightarrow> nat \<Rightarrow> error + string" where
  "fmt_plus_days now n = (case plus_days now n of Inl e \<Rightarrow> Inl e | Inr d \<Rightarrow> Inr (strftime d))"

definition parse_date_try :: "(string \<Rightarrow> datetime option) \<Rightarrow> datetime \<Rightarrow> string \<Rightarrow> error + string" where
  "parse_date_try cal_parse now date_str =
     (let date_str_lower = py_lower date_str in
      if py_in ''today'' date_str_lower then Inr (strftime now)
      else if py_in ''tomorrow'' date_str_lower then fmt_plus_days now 1
      else if py_in ''next week'' date_str_lower then fmt_plus_days now 7
      else if py_in ''next month'' date_str_lower then fmt_plus_days now 30
      else (case cal_parse date_str of
              None \<Rightarrow> Inl ParserError
            | Some parsed_date \<Rightarrow>
                Inr (strftime (if time_is_min parsed_date then parsed_date\<lparr>hour := 9\<rparr>
                               else parsed_date))))"

definition parse_date :: "(string \<Rightarrow> datetime option) \<Rightarrow> datetime \<Rightarrow> string \<Rightarrow> error + string" where
  "parse_date cal_parse now date_str =
     (case parse_date_try cal_parse now date_str of
        Inr out \<Rightarrow> Inr out
      | Inl e \<Rightarrow> fmt_plus_days now 1)"

section \<open>The field extractor\<close>

text \<open>Pieces shared by several patterns.\<close>

definition amount_num :: rx where
  "amount_num = Seq (plus Dig) (opt (seqs [Lit CHR ''.'', Dig, Dig]))"

definition on_by_due :: rx where
  "on_by_due = alts [lits ''on'', lits ''by'', lits ''due'']"

definition month_name :: rx where
  "month_name = alts (map lits [''january'', ''february'', ''march'', ''april'', ''may'',
     ''june'', ''july'', ''august'', ''september'', ''october'', ''november'', ''december''])"

definition dig12 :: rx where
  "dig12 = Seq Dig (opt Dig)"

definition dig24 :: rx where
  "dig24 = seqs [Dig, Dig, opt (Seq Dig (opt Dig))]"

definition dig4 :: rx where
  "dig4 = seqs [Dig, Dig, Dig, Dig]"

definition month_day :: rx where
  "month_day = seqs [month_name, plus Spc, dig12, opt (seqs [opt (Lit CHR '',''), plus Spc, dig4])]"

definition numeric_date :: rx where
  "numeric_date = seqs [dig12, OneOf ''-/'', dig12, opt (Seq (OneOf ''-/'') dig24)]"

definition category_name :: rx where
  "category_name = alts [lits ''rent'', lits ''electricity'', lits ''water'', lits ''gas'',
     seqs [lits ''credit'', plus Spc, lits ''card''], lits ''loan'', lits ''mortgage'',
     lits ''insurance'', lits ''subscription'', lits ''phone'', lits ''internet'']"

text \<open>The four pattern lists of \<open>extract_reminder_info\<close>, in the order of the source.\<close>

definition amount_patterns :: "rx list" where
  "amount_patterns =
     [Seq (Lit CHR ''$'') (Grp 1 amount_num),
      seqs [lits ''amount'', plus Spc, opt (Seq (lits ''of'') (plus Spc)), opt (Lit CHR ''$''),
            Grp 1 amount_num],
      seqs [Grp 1 amount_num, Star Spc, lits ''dollar'', opt (Lit CHR ''s'')],
      seqs [lits ''pay'', plus Spc, opt (Lit CHR ''$''), Grp 1 amount_num]]"

definition date_patterns :: "rx list" where
  "date_patterns =
     [seqs [on_by_due, plus Spc, Grp 1 month_day],
      seqs [on_by_due, plus Spc, Grp 1 numeric_date],
      seqs [on_by_due, plus Spc, Grp 1 (seqs [dig4, Lit CHR ''-'', dig12, Lit CHR ''-'', dig12])],
      Grp 1 (alts [lits ''tomorrow'', lits ''today'',
                   seqs [lits ''next'', plus Spc, lits ''week''],
                   seqs [lits ''next'', plus Spc, lits ''month'']]),
      seqs [opt (Seq (lits ''in'') (plus Spc)), Grp 1 (plus Dig), plus Spc, lits ''day'',
            opt (Lit CHR ''s'')]]"

definition category_patterns :: "rx list" where
  "category_patterns =
     [seqs [alts [lits ''for'', lits ''category''], plus Spc, Grp 1 category_name],
      seqs [Grp 1 category_name, plus Spc, alts [lits ''payment'', lits ''bill'']]]"

definition recurrence_patterns :: "rx list" where
  "recurrence_patterns =
     [seqs [Grp 1 (alts [lits ''weekly'', lits ''monthly'', lits ''yearly'', lits ''daily'']),
            plus Spc, alts [lits ''reminder'', lits ''payment'']],
      seqs [alts [lits ''every'', lits ''repeat''], plus Spc, Grp 1 (plus Dig), plus Spc,
            Grp 2 (alts [Seq (lits ''day'') (opt (Lit CHR ''s'')),
                         Seq (lits ''week'') (opt (Lit CHR ''s'')),
                         Seq (lits ''month'') (opt (Lit CHR ''s'')),
                         Seq (lits ''year'') (opt (Lit CHR ''s''))])]]"

text \<open>The \<open>info\<close> dictionary; \<open>None\<close> is Python's \<open>None\<close>.\<close>

record reminder_info =
  title :: "string option"
  amount :: rat
  due_date :: "string option"
  category :: "string option"
  recurrence :: "string option"
  custom_recurrence_days :: "nat option"

text \<open>
  The amount loop: the first pattern that matches and whose group converts wins; a
  ValueError of the conversion moves on to the next pattern; no match leaves 0.
\<close>

fun amount_loop :: "rx list \<Rightarrow> string \<Rightarrow> error + rat" where
  "amount_loop [] text = Inr 0"
| "amount_loop (p # ps) text =
     (case re_search True p text of
        None \<Rightarrow> amount_loop ps text
      | Some m \<Rightarrow>
          (case group m 1 of
             Inl e \<Rightarrow> Inl e
           | Inr s \<Rightarrow>
               (case py_float s of
                  Inr v \<Rightarrow> Inr v
                | Inl e \<Rightarrow> if e = ValueError then amount_loop ps text else Inl e)))"

text \<open>
  The date loop: the first pattern that matches decides. A capture that starts with a
  digit goes through \<open>int\<close> and is added to the clock as a number of days; any other
  capture goes to \<open>parse_date\<close>.
\<close>

fun date_loop :: "(string \<Rightarrow> datetime option) \<Rightarrow> datetime \<Rightarrow> rx list \<Rightarrow> string
                  \<Rightarrow> error + string option" where
  "date_loop cal_parse now [] text = Inr None"
| "date_loop cal_parse now (p # ps) text =
     (case re_search True p text of
        None \<Rightarrow> date_loop cal_parse now ps text
      | Some m \<Rightarrow>
          (case group m 1 of
             Inl e \<Rightarrow> Inl e
           | Inr date_str \<Rightarrow>
               if re_match False (plus Dig) date_str \<noteq> None
               then (case py_int date_str of
                       Inl e \<Rightarrow> Inl e
                     | Inr days \<Rightarrow>
                         (case fmt_plus_days now days of
                            Inl e \<Rightarrow> Inl e | Inr out \<Rightarrow> Inr (Some out)))
               else (case parse_date cal_parse now date_str of
                       Inl e \<Rightarrow> Inl e | Inr out \<Rightarrow> Inr (Some out))))"

definition extract_due_date :: "(string \<Rightarrow> datetime option) \<Rightarrow> datetime \<Rightarrow> string
                                \<Rightarrow> error + string option" where
  "extract_due_date cal_parse now text =
     (case date_loop cal_parse now date_patterns text of
        Inl e \<Rightarrow> Inl e
      | Inr d \<Rightarrow>
          if d = None \<or> d = Some []
          then (case parse_date cal_parse now ''tomorrow'' of
                  Inl e \<Rightarrow> Inl e | Inr out \<Rightarrow> Inr (Some out))
          else Inr d)"

fun category_loop :: "rx list \<Rightarrow> string \<Rightarrow> error + string option" where
  "category_loop [] text = Inr None"
| "category_loop (p # ps) text =
     (case re_search True p text of
        None \<Rightarrow> category_loop ps text
      | Some m \<Rightarrow>
          (case group m 1 of
             Inl e \<Rightarrow> Inl e
           | Inr s \<Rightarrow> Inr (Some (replace_char CHR '' '' CHR ''_'' s))))"

text \<open>
  The recurrence loop returns the pair (recurrence, custom_recurrence_days). The first
  pattern that matches decides; the membership test and the unit tests are those of the
  source, on the text as captured.
\<close>

fun recurrence_loop :: "rx list \<Rightarrow> string \<Rightarrow> error + (string option \<times> nat option)" where
  "recurrence_loop [] text = Inr (None, None)"
| "recurrence_loop (p # ps) text =
     (case re_search True p text of
        None \<Rightarrow> recurrence_loop ps text
      | Some m \<Rightarrow>
          (case group m 1 of
             Inl e \<Rightarrow> Inl e
           | Inr g1 \<Rightarrow>
               if g1 \<in> set [''weekly'', ''monthly'', ''yearly'', ''daily'']
               then Inr (Some g1, None)
               else (case py_int g1 of
                       Inl e \<Rightarrow> Inl e
                     | Inr n \<Rightarrow>
                         (case group m 2 of
                            Inl e \<Rightarrow> Inl e
                          | Inr g2 \<Rightarrow>
                              if py_in ''day'' g2 then Inr (Some ''custom'', Some n)
                              else if py_in ''week'' g2 then Inr (Some ''custom'', Some (n * 7))
                              else if py_in ''month'' g2 then Inr (Some ''custom'', Some (n * 30))
                              else if py_in ''year'' g2 then Inr (Some ''custom'', Some (n * 365))
                              else Inr (None, Some n)))))"

text \<open>The patterns that the title clean-up removes, in the order of the source.\<close>

definition command_words :: rx where
  "command_words = seqs [WordB,
     alts [lits ''create'', lits ''add'', lits ''set'', lits ''new'', lits ''reminder'',
           lits ''for'', lits ''to'', lits ''pay'', lits ''payment'', lits ''bill''],
     WordB]"

definition amount_token :: rx where
  "amount_token = seqs [opt (Lit CHR ''$''), plus Dig, opt (seqs [Lit CHR ''.'', Dig, Dig]),
     Star Spc, opt (Seq (lits ''dollar'') (opt (Lit CHR ''s'')))]"

definition date_marker_to_end :: rx where
  "date_marker_to_end = seqs [WordB,
     alts [lits ''on'', lits ''by'', lits ''due'', lits ''tomorrow'', lits ''today'',
           seqs [lits ''next'', plus Spc, lits ''week''],
           seqs [lits ''next'', plus Spc, lits ''month'']],
     WordB, Star Dot]"

definition in_n_days :: rx where
  "in_n_days = seqs [lits ''in'', plus Spc, plus Dig, plus Spc, lits ''day'', opt (Lit CHR ''s'')]"

text \<open>
  The category is used as a pattern of its own; it holds letters and whitespace only, which
  a pattern reads as literals.
\<close>

definition remove_category :: "string option \<Rightarrow> string \<Rightarrow> string" where
  "remove_category cat s =
     (case cat of
        None \<Rightarrow> s
      | Some c \<Rightarrow> if c = [] then s else re_sub True (lits (replace_char CHR ''_'' CHR '' '' c)) [] s)"

definition clean_title :: "string option \<Rightarrow> string \<Rightarrow> string" where
  "clean_title cat text =
     (let t1 = re_sub True command_words [] text;
          t2 = re_sub False amount_token [] t1;
          t3 = re_sub True date_marker_to_end [] t2;
          t4 = re_sub False numeric_date [] t3;
          t5 = re_sub True month_day [] t4;
          t6 = re_sub True in_n_days [] t5;
          t7 = remove_category cat t6;
          t8 = py_strip (re_sub False (plus Spc) '' '' t7)
      in py_strip_chars ''.,!?'' t8)"

definition default_title :: "string option \<Rightarrow> string" where
  "default_title cat =
     (case cat of
        None \<Rightarrow> ''Payment Reminder''
      | Some c \<Rightarrow> if c = [] then ''Payment Reminder''
                  else py_title (replace_char CHR ''_'' CHR '' '' c) @ '' Payment'')"

definition extract_reminder_info :: "(string \<Rightarrow> datetime option) \<Rightarrow> datetime \<Rightarrow> string
                                     \<Rightarrow> error + reminder_info" where
  "extract_reminder_info cal_parse now text =
     (case amount_loop amount_patterns text of
        Inl e \<Rightarrow> Inl e
      | Inr a \<Rightarrow>
     (case extract_due_date cal_parse now text of
        Inl e \<Rightarrow> Inl e
      | Inr d \<Rightarrow>
     (case category_loop category_patterns text of
        Inl e \<Rightarrow> Inl e
      | Inr c \<Rightarrow>
     (case recurrence_loop recurrence_patterns text of
        Inl e \<Rightarrow> Inl e
      | Inr (r, n) \<Rightarrow>
          (let title_text = clean_title c text in
           Inr \<lparr>title = Some (if title_text \<noteq> [] then title_text else default_title c),
                amount = a, due_date = d, category = c, recurrence = r,
                custom_recurrence_days = n\<rparr>)))))"

section \<open>The intent classifier\<close>

datatype intent =
    Delete string
  | ListReminders
  | MarkDone string
  | Create reminder_info
  | NoAction

definition del_verb :: rx where
  "del_verb = alts [lits ''delete'', lits ''remove'', lits ''cancel'']"

definition delete_patterns :: "rx list" where
  "delete_patterns =
     [seqs [del_verb, plus Spc, lits ''reminder'',
            Alt (seqs [Star Spc, Lit CHR '':'', Star Spc]) (plus Spc), Grp 1 (plus Dot)],
      seqs [del_verb, plus Spc, Grp 1 (lplus Dot), opt (Seq (plus Spc) (lits ''reminder'')), Eos],
      seqs [lits ''remove'', plus Spc, Grp 1 (plus Dot)],
      seqs [lits ''cancel'', plus Spc, Grp 1 (plus Dot)]]"

definition stray_words :: rx where
  "stray_words = seqs [WordB, alts [lits ''reminder'', lits ''the'', lits ''my''], WordB]"

definition mark_pattern :: rx where
  "mark_pattern = seqs [alts [lits ''mark'', lits ''complete''], plus Spc, Grp 1 (lplus Dot),
     opt (seqs [plus Spc, lits ''as'', plus Spc, lits ''done'']), Eos]"

definition create_patterns :: "rx list" where
  "create_patterns =
     [seqs [alts [lits ''create'', lits ''add'', lits ''set'', lits ''new''], plus Spc,
            lits ''reminder'', plus Spc, Grp 1 (plus Dot)],
      seqs [lits ''remind'', plus Spc, lits ''me'', plus Spc, opt (Seq (lits ''to'') (plus Spc)),
            Grp 1 (plus Dot)],
      seqs [lits ''set'', plus Spc, opt (Seq (Lit CHR ''a'') (plus Spc)), lits ''reminder'',
            plus Spc, Grp 1 (plus Dot)],
      seqs [lits ''add'', plus Spc, lits ''reminder'', plus Spc, Grp 1 (plus Dot)]]"

definition tidy_title :: "string \<Rightarrow> string" where
  "tidy_title s = py_strip (re_sub False stray_words [] (py_strip s))"

text \<open>
  The delete loop stops at the first pattern that matches, whether or not a title is left;
  \<open>None\<close> means that the classifier goes on to the next kind of command.
\<close>

fun delete_loop :: "rx list \<Rightarrow> string \<Rightarrow> error + intent option" where
  "delete_loop [] s = Inr None"
| "delete_loop (p # ps) s =
     (case re_search False p s of
        None \<Rightarrow> delete_loop ps s
      | Some m \<Rightarrow>
          (case group m 1 of
             Inl e \<Rightarrow> Inl e
           | Inr g \<Rightarrow> (let t = tidy_title g in
                       if t \<noteq> [] then Inr (Some (Delete t)) else Inr None)))"

definition mark_done_step :: "string \<Rightarrow> error + intent option" where
  "mark_done_step s =
     (if list_ex (\<lambda>cmd. py_in cmd s) [''mark as done'', ''complete reminder'', ''payment done'']
      then (case re_search False mark_pattern s of
              None \<Rightarrow> Inr None
            | Some m \<Rightarrow>
                (case group m 1 of
                   Inl e \<Rightarrow> Inl e
                 | Inr g \<Rightarrow> (let t = tidy_title g in
                             if t \<noteq> [] then Inr (Some (MarkDone t)) else Inr None)))
      else Inr None)"

fun create_loop :: "(string \<Rightarrow> datetime option) \<Rightarrow> datetime \<Rightarrow> rx list \<Rightarrow> string
                    \<Rightarrow> error + intent" where
  "create_loop cal_parse now [] s = Inr NoAction"
| "create_loop cal_parse now (p # ps) s =
     (case re_search True p s of
        None \<Rightarrow> create_loop cal_parse now ps s
      | Some m \<Rightarrow>
          (case group m 1 of
             Inl e \<Rightarrow> Inl e
           | Inr reminder_text \<Rightarrow>
               (case extract_reminder_info cal_parse now reminder_text of
                  Inl e \<Rightarrow> Inl e
                | Inr info \<Rightarrow> Inr (Create info))))"

text \<open>The body of the \<open>try\<close> in \<open>parse_reminder_request\<close>.\<close>

definition classify_try :: "(string \<Rightarrow> datetime option) \<Rightarrow> datetime \<Rightarrow> string \<Rightarrow> error + intent" where
  "classify_try cal_parse now user_input =
     (let user_input_lower = py_lower user_input in
      case delete_loop delete_patterns user_input_lower of
        Inl e \<Rightarrow> Inl e
      | Inr (Some i) \<Rightarrow> Inr i
      | Inr None \<Rightarrow>
          if list_ex (\<lambda>cmd. py_in cmd user_input_lower)
               [''list reminders'', ''show reminders'', ''my reminders'', ''view reminders'']
          then Inr ListReminders
          else (case mark_done_step user_input_lower of
                  Inl e \<Rightarrow> Inl e
                | Inr (Some i) \<Rightarrow> Inr i
                | Inr None \<Rightarrow> create_loop cal_parse now create_patterns user_input))"

text \<open>\<open>parse_reminder_request\<close>: the handler turns every exception into \<open>{"action": "none"}\<close>.\<close>

definition parse_reminder_request :: "(string \<Rightarrow> datetime option) \<Rightarrow> datetime \<Rightarrow> string \<Rightarrow> intent" where
  "parse_reminder_request cal_parse now user_input =
     (case classify_try cal_parse now user_input of
        Inl e \<Rightarrow> NoAction
      | Inr i \<Rightarrow> i)"

section \<open>Deleting a reminder\<close>

text \<open>
  The hosted store is outside the repository. A \<open>store\<close> holds the answers it gives to the
  queries that \<open>delete_reminder\<close> sends to the table of reminders; \<open>Inl\<close> is a query that
  raises. The patterns of the two title filters are built by the caller.
\<close>

record reminder_row =
  r_id :: string
  r_title :: string

record store =
  select_ilike :: "string \<Rightarrow> error + reminder_row list"
  select_eq :: "string \<Rightarrow> error + reminder_row list"
  select_titles :: "error + reminder_row list"
  delete_id :: "string \<Rightarrow> error + reminder_row list"
  delete_ilike :: "string \<Rightarrow> error + reminder_row list"
  delete_eq :: "string \<Rightarrow> error + reminder_row list"

text \<open>
  The messages of \<open>delete_reminder\<close>, one constructor for each format string of the source;
  \<open>DidYouMean title xs\<close> is the message
  \<open>No reminder found matching 'title'. Did you mean: x1, x2, x3?\<close>.
\<close>

datatype message =
    DeletedById
  | NoSuchId string
  | DidYouMean string "string list"
  | NoMatch string
  | DeletedOne string
  | DeletedMany nat string
  | DeleteFailed string
  | NeedTitleOrId
  | DatabaseError error

record op_result =
  success :: bool
  message :: message
  deleted_count :: "nat option"

definition failure :: "message \<Rightarrow> op_result" where
  "failure m = \<lparr>success = False, message = m, deleted_count = None\<rparr>"

text \<open>
  The comprehension that builds the suggestions binds the name \<open>title\<close> again: inside it,
  \<open>title\<close> is the stored title under test, so the words tested are the stored title's own.
  The argument \<open>title\<close> of the source is \<open>ttl\<close> here.
\<close>

definition suggestions_of :: "string list \<Rightarrow> string list" where
  "suggestions_of reminder_titles =
     filter (\<lambda>title. list_ex (\<lambda>word. py_in word title) (py_split title)) reminder_titles"

definition not_found :: "store \<Rightarrow> string \<Rightarrow> error + op_result" where
  "not_found db ttl =
     (case select_titles db of
        Inl e \<Rightarrow> Inl e
      | Inr all_reminders \<Rightarrow>
          (let reminder_titles = map (\<lambda>r. py_lower (r_title r)) all_reminders;
               suggestions = suggestions_of reminder_titles
           in if all_reminders \<noteq> [] \<and> suggestions \<noteq> []
              then Inr (failure (DidYouMean ttl (take 3 suggestions)))
              else Inr (failure (NoMatch ttl))))"

definition delete_found :: "store \<Rightarrow> string \<Rightarrow> error + op_result" where
  "delete_found db ttl =
     (case delete_ilike db (''%'' @ ttl @ ''%'') of
        Inl e \<Rightarrow> Inl e
      | Inr r1 \<Rightarrow>
          (case (if r1 = [] then delete_eq db ttl else Inr r1) of
             Inl e \<Rightarrow> Inl e
           | Inr result \<Rightarrow>
               (let n = length result in
                if 0 < n
                then (if n = 1
                      then Inr \<lparr>success = True, message = DeletedOne (r_title (hd result)),
                                deleted_count = Some n\<rparr>
                      else Inr \<lparr>success = True, message = DeletedMany n ttl,
                                deleted_count = Some n\<rparr>)
                else Inr (failure (DeleteFailed ttl)))))"

definition delete_try :: "store \<Rightarrow> string option \<Rightarrow> string option \<Rightarrow> error + op_result" where
  "delete_try db reminder_id ttl =
     (if reminder_id \<noteq> None \<and> reminder_id \<noteq> Some []
      then (case delete_id db (the reminder_id) of
              Inl e \<Rightarrow> Inl e
            | Inr rows \<Rightarrow>
                Inr \<lparr>success = (rows \<noteq> []),
                     message = (if rows \<noteq> [] then DeletedById else NoSuchId (the reminder_id)),
                     deleted_count = Some (length rows)\<rparr>)
      else if ttl \<noteq> None \<and> ttl \<noteq> Some []
      then (let t = the ttl in
            case select_ilike db (''%'' @ t @ ''%'') of
              Inl e \<Rightarrow> Inl e
            | Inr s1 \<Rightarrow>
                (case (if s1 = [] then select_eq db t else Inr s1) of
                   Inl e \<Rightarrow> Inl e
                 | Inr search_result \<Rightarrow>
                     if search_result = [] then not_found db t else delete_found db t))
      else Inr (failure NeedTitleOrId))"

definition delete_reminder :: "store \<Rightarrow> string option \<Rightarrow> string option \<Rightarrow> op_result" where
  "delete_reminder db reminder_id ttl =
     (case delete_try db reminder_id ttl of
        Inl e \<Rightarrow> failure (DatabaseError e)
      | Inr r \<Rightarrow> r)"

text \<open>
  Two titles share a word when a word of one occurs in the other, with the containment
  test that the program uses.
\<close>

definition shares_word :: "string \<Rightarrow> string \<Rightarrow> bool" where
  "shares_word a b =
     (list_ex (\<lambda>w. py_in w b) (py_split a) \<or> list_ex (\<lambda>w. py_in w a) (py_split b))"

section \<open>Sample environments\<close>

text \<open>
  A clock, a calendar parser and a store for the concrete runs below. The parser gives what
  \<open>dateutil\<close> gives in 2026 for the three phrases it knows and fails on every other phrase.
\<close>

definition sample_clock :: datetime where
  "sample_clock = \<lparr>year = 2026, month = 11, day = 4, hour = 10, minute = 30, second = 5,
                    microsecond = 7\<rparr>"

definition august_15 :: datetime where
  "august_15 = \<lparr>year = 2026, month = 8, day = 15, hour = 0, minute = 0, second = 0,
                 microsecond = 0\<rparr>"

definition sample_calendar :: "string \<Rightarrow> datetime option" where
  "sample_calendar s =
     (if s = ''August 15'' \<or> s = ''August 15 00:00'' then Some august_15
      else if s = ''August 15 3pm'' then Some (august_15\<lparr>hour := 15\<rparr>)
      else None)"

definition sample_store :: store where
  "sample_store =
     \<lparr>select_ilike = (\<lambda>p. Inr []), select_eq = (\<lambda>t. Inr []),
      select_titles = Inr [\<lparr>r_id = ''1'', r_title = ''Netflix''\<rparr>],
      delete_id = (\<lambda>i. Inr []), delete_ilike = (\<lambda>p. Inr []), delete_eq = (\<lambda>t. Inr [])\<rparr>"

section \<open>Observations on dates and results\<close>

text \<open>
  A date in the calendar, with no upper bound on the year: the invariant that stepping to
  the next day keeps.
\<close>

definition date_ok :: "datetime \<Rightarrow> bool" where
  "date_ok d = (1 \<le> year d \<and> 1 \<le> month d \<and> month d \<le> 12
      \<and> 1 \<le> day d \<and> day d \<le> days_in_month (year d) (month d))"

text \<open>The time of day of a \<open>datetime\<close>, and the \<open>HH:MM:SS\<close> part of a formatted stamp.\<close>

definition time_of :: "datetime \<Rightarrow> nat \<times> nat \<times> nat \<times> nat" where
  "time_of d = (hour d, minute d, second d, microsecond d)"

definition time_part :: "string \<Rightarrow> string" where
  "time_part out = take 8 (drop 11 out)"

text \<open>The four tests that \<open>parse_date\<close> makes before it calls the calendar parser.\<close>

definition relative_keyword :: "string \<Rightarrow> bool" where
  "relative_keyword s =
     (py_in ''today'' (py_lower s) \<or> py_in ''tomorrow'' (py_lower s)
      \<or> py_in ''next week'' (py_lower s) \<or> py_in ''next month'' (py_lower s))"

text \<open>Patterns without a capturing group.\<close>

primrec no_grp :: "rx \<Rightarrow> bool" where
  "no_grp Eps = True"
| "no_grp (Lit c) = True"
| "no_grp Dig = True"
| "no_grp Spc = True"
| "no_grp Dot = True"
| "no_grp (OneOf cs) = True"
| "no_grp WordB = True"
| "no_grp Eos = True"
| "no_grp (Seq r1 r2) = (no_grp r1 \<and> no_grp r2)"
| "no_grp (Alt r1 r2) = (no_grp r1 \<and> no_grp r2)"
| "no_grp (Star r) = no_grp r"
| "no_grp (LStar r) = no_grp r"
| "no_grp (Grp k r) = False"

text \<open>
  The texts that an amount pattern can capture: one or more digits, then nothing or a dot
  and exactly two digits.
\<close>

definition amount_shape :: "string \<Rightarrow> bool" where
  "amount_shape s =
     (takeWhile py_isdigit s \<noteq> []
      \<and> (case dropWhile py_isdigit s of
            [] \<Rightarrow> True
          | [d, a, b] \<Rightarrow> d = CHR ''.'' \<and> py_isdigit a \<and> py_isdigit b
          | _ \<Rightarrow> False))"

text \<open>The three states of the recurrence fields that the specification allows.\<close>

definition recurrence_absent :: "reminder_info \<Rightarrow> bool" where
  "recurrence_absent info = (recurrence info = None)"

definition recurrence_fixed :: "reminder_info \<Rightarrow> bool" where
  "recurrence_fixed info =
     (recurrence info \<in> {Some ''daily'', Some ''weekly'', Some ''monthly'', Some ''yearly''})"

definition recurrence_custom :: "reminder_info \<Rightarrow> bool" where
  "recurrence_custom info =
     (recurrence info = Some ''custom'' \<and> custom_recurrence_days info \<noteq> None)"

definition exactly_one :: "bool \<Rightarrow> bool \<Rightarrow> bool \<Rightarrow> bool" where
  "exactly_one a b c = ((a \<and> \<not> b \<and> \<not> c) \<or> (\<not> a \<and> b \<and> \<not> c) \<or> (\<not> a \<and> \<not> b \<and> c))"

section \<open>Runs of the extractor and of the classifier\<close>

text \<open>The resolver on the word that the extractor falls back to.\<close>

lemma parse_date_tomorrow: "parse_date cal_parse now ''tomorrow'' = fmt_plus_days now 1"
proof -
  have l: "py_lower ''tomorrow'' = ''tomorrow''" by code_simp
  have a: "\<not> py_in ''today'' ''tomorrow''" by code_simp
  have b: "py_in ''tomorrow'' ''tomorrow''" by code_simp
  show ?thesis
    by (simp add: parse_date_def parse_date_try_def l a b del: py_in.simps split: sum.splits)
qed

lemma tomorrow_sample: "fmt_plus_days sample_clock 1 = Inr ''2026-11-05 10:30:05+00:00''"
  by (simp add: fmt_plus_days_def plus_days_def sample_clock_def next_day_def days_in_month_def
      strftime_def pad2_def pad4_def digit_char_def)

subsection \<open>The phrase \<open>every 2 WEEKS\<close>\<close>

lemma weeks_amount: "amount_loop amount_patterns ''every 2 WEEKS'' = Inr 0"
  by code_simp

lemma weeks_date: "date_loop cal_parse now date_patterns ''every 2 WEEKS'' = Inr None"
  by code_simp

lemma weeks_category: "category_loop category_patterns ''every 2 WEEKS'' = Inr None"
  by code_simp

lemma weeks_recurrence: "recurrence_loop recurrence_patterns ''every 2 WEEKS'' = Inr (None, Some 2)"
  by code_simp

lemma weeks_title: "clean_title None ''every 2 WEEKS'' = ''every WEEKS''"
  by code_simp

lemma weeks_extract:
  "extract_reminder_info cal_parse now ''every 2 WEEKS''
   = (case fmt_plus_days now 1 of
        Inl e \<Rightarrow> Inl e
      | Inr out \<Rightarrow> Inr \<lparr>title = Some ''every WEEKS'', amount = 0, due_date = Some out,
          category = None, recurrence = None, custom_recurrence_days = Some 2\<rparr>)"
  by (simp add: extract_reminder_info_def extract_due_date_def weeks_amount weeks_date
      weeks_category weeks_recurrence weeks_title parse_date_tomorrow split: sum.splits)

text \<open>
  C4. The claim: every phrase that matches \<open>every/repeat N unit\<close> gets recurrence
  \<open>custom\<close> and N scaled by the unit. The pattern is matched without regard to case, the
  unit is then tested against lower-case words only: on \<open>every 2 WEEKS\<close> no unit test
  succeeds, the recurrence stays absent and the day count stays the unscaled 2.
\<close>

theorem C4_upper_case_unit_not_custom:
  "extract_reminder_info sample_calendar sample_clock ''every 2 WEEKS''
   = Inr \<lparr>title = Some ''every WEEKS'', amount = 0,
          due_date = Some ''2026-11-05 10:30:05+00:00'',
          category = None, recurrence = None, custom_recurrence_days = Some 2\<rparr>"
  unfolding weeks_extract tomorrow_sample by simp

subsection \<open>The utterance \<open>delete reminder: Netflix\<close>\<close>




subsection \<open>The utterance \<open>set reminder Daily payment\<close>\<close>

lemma daily_lower: "py_lower ''set reminder Daily payment'' = ''set reminder daily payment''"
  by code_simp

lemma daily_delete: "delete_loop delete_patterns ''set reminder daily payment'' = Inr None"
  by code_simp

lemma daily_list:
  "\<not> list_ex (\<lambda>cmd. py_in cmd ''set reminder daily payment'')
       [''list reminders'', ''show reminders'', ''my reminders'', ''view reminders'']"
  by code_simp

lemma daily_mark: "mark_done_step ''set reminder daily payment'' = Inr None"
  by code_simp

lemma daily_create:
  "re_search True (hd create_patterns) ''set reminder Daily payment''
   = Some \<lparr>m_text = ''set reminder Daily payment'', m_groups = [(1, ''Daily payment'')]\<rparr>"
  by code_simp

lemma daily_amount: "amount_loop amount_patterns ''Daily payment'' = Inr 0"
  by code_simp

lemma daily_date: "date_loop cal_parse now date_patterns ''Daily payment'' = Inr None"
  by code_simp

lemma daily_category: "category_loop category_patterns ''Daily payment'' = Inr None"
  by code_simp

lemma daily_recurrence: "recurrence_loop recurrence_patterns ''Daily payment'' = Inl ValueError"
  by code_simp

lemma daily_extract:
  "extract_reminder_info cal_parse now ''Daily payment''
   = (case fmt_plus_days now 1 of Inl e \<Rightarrow> Inl e | Inr out \<Rightarrow> Inl ValueError)"
  by (simp add: extract_reminder_info_def extract_due_date_def daily_amount daily_date
      daily_category daily_recurrence parse_date_tomorrow split: sum.splits)

lemma daily_classify:
  "classify_try cal_parse now ''set reminder Daily payment''
   = (case fmt_plus_days now 1 of Inl e \<Rightarrow> Inl e | Inr out \<Rightarrow> Inl ValueError)"
proof -
  have ps: "create_patterns = hd create_patterns # tl create_patterns"
    by (simp add: create_patterns_def)
  have c: "create_loop cal_parse now create_patterns ''set reminder Daily payment''
           = (case fmt_plus_days now 1 of Inl e \<Rightarrow> Inl e | Inr out \<Rightarrow> Inl ValueError)"
    by (subst ps) (simp add: daily_create group_def daily_extract split: sum.splits)
  show ?thesis
    unfolding classify_try_def daily_lower Let_def daily_delete
    using daily_list by (simp add: daily_mark c del: list_ex_Cons_iff list_ex_Nil_iff py_in.simps)
qed

lemma daily_raises:
  "classify_try sample_calendar sample_clock ''set reminder Daily payment'' = Inl ValueError"
  unfolding daily_classify tomorrow_sample by simp

subsection \<open>Exceptions in the classifier\<close>

text \<open>
  C9. Whatever exception the body of the classifier raises, the classifier returns the
  intent none.
\<close>

theorem C9_exception_gives_none:
  "classify_try cal_parse now user_input = Inl e
   \<Longrightarrow> parse_reminder_request cal_parse now user_input = NoAction"
  by (simp add: parse_reminder_request_def)

theorem C9_witness:
  "classify_try sample_calendar sample_clock ''set reminder Daily payment'' = Inl ValueError
   \<and> parse_reminder_request sample_calendar sample_clock ''set reminder Daily payment'' = NoAction"
  using C9_exception_gives_none [OF daily_raises] daily_raises by simp

section \<open>Suggestions after a failed delete\<close>

text \<open>
  C2. The claim: every title suggested after a failed delete shares a word with the title
  asked for. With one stored reminder \<open>Netflix\<close> and the request to delete \<open>rent\<close>, no
  row matches, and the message suggests \<open>netflix\<close>, which shares no word with \<open>rent\<close>.
\<close>

theorem C2_suggestion_without_common_word:
  "delete_reminder sample_store None (Some ''rent'')
     = \<lparr>success = False, message = DidYouMean ''rent'' [''netflix''], deleted_count = None\<rparr>
   \<and> \<not> shares_word ''rent'' ''netflix''"
  by code_simp

section \<open>The date resolver: shape, relative keywords, time of day\<close>

lemma digit_char_isdigit: "py_isdigit (digit_char n)"
proof -
  have "n mod 10 \<in> set [0..<10]" by simp
  also have "[0..<10] = [0, 1, 2, 3, 4, 5, 6, 7, 8, 9 :: nat]" by (simp add: upt_rec)
  finally have "n mod 10 \<in> {0, 1, 2, 3, 4, 5, 6, 7, 8, 9}" by simp
  then show ?thesis
    unfolding digit_char_def by (auto simp: py_isdigit_def)
qed

lemma stamp_shape_strftime: "stamp_shape (strftime d)"
  by (simp add: stamp_shape_def strftime_def pad2_def pad4_def digit_char_isdigit)

lemma fmt_plus_days_shape: "fmt_plus_days now n = Inr out \<Longrightarrow> stamp_shape out"
  by (auto simp: fmt_plus_days_def stamp_shape_strftime split: sum.splits)

lemma parse_date_try_shape: "parse_date_try cal_parse now s = Inr out \<Longrightarrow> stamp_shape out"
  by (auto simp: parse_date_try_def Let_def stamp_shape_strftime split: if_splits option.splits
      dest: fmt_plus_days_shape)

lemma plus_days_one: "year (next_day now) \<le> 9999 \<Longrightarrow> plus_days now 1 = Inr (next_day now)"
  by (simp add: plus_days_def)

lemma year_next_day: "year d \<le> year (next_day d)"
  by (simp add: next_day_def)

lemma year_funpow_mono: "year ((next_day ^^ k) d) \<le> year ((next_day ^^ (k + j)) d)"
proof (induction j)
  case 0 show ?case by simp
next
  case (Suc j)
  have "year ((next_day ^^ (k + j)) d) \<le> year (next_day ((next_day ^^ (k + j)) d))"
    by (rule year_next_day)
  with Suc show ?case by simp
qed

lemma time_next_day:
  "hour (next_day d) = hour d \<and> minute (next_day d) = minute d \<and> second (next_day d) = second d
   \<and> microsecond (next_day d) = microsecond d"
  by (simp add: next_day_def)

lemma time_funpow:
  "hour ((next_day ^^ n) d) = hour d \<and> minute ((next_day ^^ n) d) = minute d
   \<and> second ((next_day ^^ n) d) = second d \<and> microsecond ((next_day ^^ n) d) = microsecond d"
  by (induction n) (simp_all add: time_next_day)

lemma days_before_month_Suc:
  "1 \<le> m \<Longrightarrow> days_before_month y (Suc m) = days_before_month y m + days_in_month y m"
  by (simp add: days_before_month_def)

lemma days_before_month_12: "days_before_month y 12 + 31 = (if is_leap y then 366 else 365)"
proof -
  have "[1..<12] = [1,2,3,4,5,6,7,8,9,10,11::nat]" by (simp add: upt_rec)
  then show ?thesis by (simp add: days_before_month_def days_in_month_def)
qed

lemma leap_step:
  fixes A B C z :: nat
  assumes "B \<le> A"
  shows "365 + z * 365 + A - B + C = z * 365 + A - B + C + 365"
    and "365 + z * 365 + Suc A - B + C = z * 365 + A - B + C + 366"
    and "365 + z * 365 + Suc A - Suc B + C = z * 365 + A - B + C + 365"
    and "365 + z * 365 + Suc A - Suc B + Suc C = z * 365 + A - B + C + 366"
  using assms by linarith+

lemma days_before_year_Suc:
  assumes "1 \<le> y"
  shows "days_before_year (Suc y) = days_before_year y + (if is_leap y then 366 else 365)"
proof -
  from assms obtain z where y: "y = Suc z" by (cases y) auto
  define A B C where "A = z div 4" and "B = z div 100" and "C = z div 400"
  have a: "B \<le> A" unfolding A_def B_def by (rule div_le_mono2) simp_all
  have d4: "(4::nat) dvd 100" and d100: "(100::nat) dvd 400" by simp_all
  have b: "Suc z mod 100 = 0 \<Longrightarrow> Suc z mod 4 = 0"
    using d4 by (meson dvd_trans mod_eq_0_iff_dvd)
  have c: "Suc z mod 400 = 0 \<Longrightarrow> Suc z mod 100 = 0"
    using d100 by (meson dvd_trans mod_eq_0_iff_dvd)
  have e4: "Suc z div 4 = (if Suc z mod 4 = 0 then Suc A else A)"
    and e100: "Suc z div 100 = (if Suc z mod 100 = 0 then Suc B else B)"
    and e400: "Suc z div 400 = (if Suc z mod 400 = 0 then Suc C else C)"
    unfolding A_def B_def C_def by (rule div_Suc)+
  have lhs: "days_before_year (Suc y) = 365 + z * 365 + Suc z div 4 - Suc z div 100 + Suc z div 400"
    unfolding y days_before_year_def Let_def by simp
  have rhs: "days_before_year y = z * 365 + A - B + C"
    unfolding y days_before_year_def Let_def A_def B_def C_def by simp
  consider (n4) "Suc z mod 4 \<noteq> 0"
    | (y4) "Suc z mod 4 = 0" "Suc z mod 100 \<noteq> 0"
    | (y100) "Suc z mod 100 = 0" "Suc z mod 400 \<noteq> 0"
    | (y400) "Suc z mod 400 = 0" by blast
  then show ?thesis
  proof cases
    case n4
    from n4 have n1: "Suc z mod 100 \<noteq> 0" by (rule contrapos_nn) (rule b)
    from n1 have n2: "Suc z mod 400 \<noteq> 0" by (rule contrapos_nn) (rule c)
    note n = n1 n2
    have "is_leap y = False" unfolding y is_leap_def using n4 by simp
    then show ?thesis unfolding lhs rhs e4 e100 e400 using n4 n leap_step(1) [OF a] by simp
  next
    case y4
    from y4(2) have n: "Suc z mod 400 \<noteq> 0" by (rule contrapos_nn) (rule c)
    have "is_leap y = True" unfolding y is_leap_def using y4 by simp
    then show ?thesis unfolding lhs rhs e4 e100 e400 using y4 n leap_step(2) [OF a] by simp
  next
    case y100
    from y100(1) have n: "Suc z mod 4 = 0" by (rule b)
    have "is_leap y = False" unfolding y is_leap_def using y100 by simp
    then show ?thesis unfolding lhs rhs e4 e100 e400 using y100 n leap_step(3) [OF a] by simp
  next
    case y400
    from y400 have n1: "Suc z mod 100 = 0" by (rule c)
    from n1 have n2: "Suc z mod 4 = 0" by (rule b)
    note n = n1 n2
    have "is_leap y = True" unfolding y is_leap_def using y400 n by simp
    then show ?thesis unfolding lhs rhs e4 e100 e400 using y400 n leap_step(4) [OF a] by simp
  qed
qed

lemma date_ok_next_day: "date_ok d \<Longrightarrow> date_ok (next_day d)"
  by (auto simp: date_ok_def next_day_def days_in_month_def)

lemma days_before_month_1: "days_before_month y (Suc 0) = 0"
  by (simp add: days_before_month_def)

lemma toordinal_next_day:
  assumes "date_ok d"
  shows "toordinal (next_day d) = toordinal d + 1"
proof (cases "day d < days_in_month (year d) (month d)")
  case True
  then show ?thesis by (simp add: next_day_def toordinal_def)
next
  case False
  with assms have dd: "day d = days_in_month (year d) (month d)"
    by (simp add: date_ok_def)
  show ?thesis
  proof (cases "month d < 12")
    case True
    from assms have "1 \<le> month d" by (simp add: date_ok_def)
    then have "days_before_month (year d) (Suc (month d))
               = days_before_month (year d) (month d) + days_in_month (year d) (month d)"
      by (rule days_before_month_Suc)
    with True False dd show ?thesis by (simp add: next_day_def toordinal_def)
  next
    case m: False
    with assms have m12: "month d = 12" by (simp add: date_ok_def)
    from dd m12 have d31: "day d = 31" by (simp add: days_in_month_def)
    from assms have "1 \<le> year d" by (simp add: date_ok_def)
    then have y: "days_before_year (Suc (year d))
                  = days_before_year (year d) + (if is_leap (year d) then 366 else 365)"
      by (rule days_before_year_Suc)
    have "days_before_month (year d) 12 + 31 = (if is_leap (year d) then 366 else 365)"
      by (rule days_before_month_12)
    with y m False m12 d31 show ?thesis
      by (simp add: next_day_def toordinal_def days_before_month_1)
  qed
qed

lemma toordinal_funpow:
  "date_ok d \<Longrightarrow> date_ok ((next_day ^^ n) d) \<and> toordinal ((next_day ^^ n) d) = toordinal d + n"
  by (induction n) (simp_all add: date_ok_next_day toordinal_next_day)


lemma valid_dt_date_ok: "valid_dt d \<Longrightarrow> date_ok d"
  by (simp add: valid_dt_def date_ok_def)

lemma time_of_funpow: "time_of ((next_day ^^ n) d) = time_of d"
  by (simp add: time_of_def time_funpow)

lemma plus_days_in_range:
  "n \<le> 30 \<Longrightarrow> year ((next_day ^^ 30) now) \<le> 9999
   \<Longrightarrow> plus_days now n = Inr ((next_day ^^ n) now)"
proof -
  assume n: "n \<le> 30" and y: "year ((next_day ^^ 30) now) \<le> 9999"
  from n have "year ((next_day ^^ n) now) \<le> year ((next_day ^^ (n + (30 - n))) now)"
    by (intro year_funpow_mono)
  with n y have "year ((next_day ^^ n) now) \<le> 9999" by simp
  with n show ?thesis by (simp add: plus_days_def)
qed

lemma try_today: "parse_date_try cal_parse now ''today'' = Inr (strftime now)"
proof -
  have l: "py_lower ''today'' = ''today''" by code_simp
  have a: "py_in ''today'' ''today''" by code_simp
  show ?thesis by (simp add: parse_date_try_def l a del: py_in.simps)
qed

lemma try_tomorrow: "parse_date_try cal_parse now ''tomorrow'' = fmt_plus_days now 1"
proof -
  have l: "py_lower ''tomorrow'' = ''tomorrow''" by code_simp
  have a: "\<not> py_in ''today'' ''tomorrow''" by code_simp
  have b: "py_in ''tomorrow'' ''tomorrow''" by code_simp
  show ?thesis by (simp add: parse_date_try_def l a b del: py_in.simps)
qed

lemma try_next_week: "parse_date_try cal_parse now ''next week'' = fmt_plus_days now 7"
proof -
  have l: "py_lower ''next week'' = ''next week''" by code_simp
  have a: "\<not> py_in ''today'' ''next week''" by code_simp
  have b: "\<not> py_in ''tomorrow'' ''next week''" by code_simp
  have c: "py_in ''next week'' ''next week''" by code_simp
  show ?thesis by (simp add: parse_date_try_def l a b c del: py_in.simps)
qed

lemma try_next_month: "parse_date_try cal_parse now ''next month'' = fmt_plus_days now 30"
proof -
  have l: "py_lower ''next month'' = ''next month''" by code_simp
  have a: "\<not> py_in ''today'' ''next month''" by code_simp
  have b: "\<not> py_in ''tomorrow'' ''next month''" by code_simp
  have c: "\<not> py_in ''next week'' ''next month''" by code_simp
  have d: "py_in ''next month'' ''next month''" by code_simp
  show ?thesis by (simp add: parse_date_try_def l a b c d del: py_in.simps)
qed

text \<open>
  C5. At a fixed clock value that is a valid \<open>datetime\<close> and lies at least 30 days before
  the end of year 9999, the resolver gives the stamp of the clock for \<open>today\<close>, of the
  next day for \<open>tomorrow\<close> (one more in the day count, the same time of day), of the day
  7 days on for \<open>next week\<close> and of the day 30 days on for \<open>next month\<close>.
\<close>

theorem C5_relative_keywords:
  assumes "valid_dt now" and "year ((next_day ^^ 30) now) \<le> 9999"
  shows "parse_date cal_parse now ''today'' = Inr (strftime now)
     \<and> parse_date cal_parse now ''tomorrow'' = Inr (strftime (next_day now))
     \<and> toordinal (next_day now) = toordinal now + 1
     \<and> time_of (next_day now) = time_of now
     \<and> parse_date cal_parse now ''next week'' = Inr (strftime ((next_day ^^ 7) now))
     \<and> toordinal ((next_day ^^ 7) now) = toordinal now + 7
     \<and> time_of ((next_day ^^ 7) now) = time_of now
     \<and> parse_date cal_parse now ''next month'' = Inr (strftime ((next_day ^^ 30) now))
     \<and> toordinal ((next_day ^^ 30) now) = toordinal now + 30
     \<and> time_of ((next_day ^^ 30) now) = time_of now"
proof -
  from assms(1) have ok: "date_ok now" by (rule valid_dt_date_ok)
  have p1: "plus_days now 1 = Inr ((next_day ^^ 1) now)"
    by (rule plus_days_in_range [OF _ assms(2)]) simp
  have p7: "plus_days now 7 = Inr ((next_day ^^ 7) now)"
    by (rule plus_days_in_range [OF _ assms(2)]) simp
  have p30: "plus_days now 30 = Inr ((next_day ^^ 30) now)"
    by (rule plus_days_in_range [OF _ assms(2)]) simp
  have t1: "time_of (next_day now) = time_of now"
    using time_of_funpow [of 1 now] by simp
  have o1: "toordinal (next_day now) = toordinal now + 1"
    using ok by (rule toordinal_next_day)
  show ?thesis
    using p1 p7 p30 t1 o1 toordinal_funpow [OF ok, of 7] toordinal_funpow [OF ok, of 30]
    by (simp add: parse_date_def try_today try_tomorrow try_next_week try_next_month
        fmt_plus_days_def time_of_funpow)
qed

lemma sample_clock_valid: "valid_dt sample_clock"
  by (simp add: valid_dt_def sample_clock_def days_in_month_def)

lemma sample_clock_30: "(next_day ^^ 30) sample_clock = sample_clock\<lparr>month := 12, day := 4\<rparr>"
  by (simp add: eval_nat_numeral next_day_def days_in_month_def sample_clock_def)

lemma sample_clock_7: "(next_day ^^ 7) sample_clock = sample_clock\<lparr>day := 11\<rparr>"
  by (simp add: eval_nat_numeral next_day_def days_in_month_def sample_clock_def)

lemma sample_clock_1: "next_day sample_clock = sample_clock\<lparr>day := 5\<rparr>"
  by (simp add: next_day_def days_in_month_def sample_clock_def)

theorem C5_witness:
  "valid_dt sample_clock \<and> year ((next_day ^^ 30) sample_clock) \<le> 9999
   \<and> parse_date sample_calendar sample_clock ''today'' = Inr ''2026-11-04 10:30:05+00:00''
   \<and> parse_date sample_calendar sample_clock ''tomorrow'' = Inr ''2026-11-05 10:30:05+00:00''
   \<and> parse_date sample_calendar sample_clock ''next week'' = Inr ''2026-11-11 10:30:05+00:00''
   \<and> parse_date sample_calendar sample_clock ''next month'' = Inr ''2026-12-04 10:30:05+00:00''"
proof -
  have y: "year ((next_day ^^ 30) sample_clock) \<le> 9999"
    by (simp add: sample_clock_30) (simp add: sample_clock_def)
  show ?thesis
    using C5_relative_keywords [OF sample_clock_valid y, of sample_calendar] y
    by (simp add: sample_clock_valid sample_clock_30 sample_clock_7 sample_clock_1)
       (simp add: sample_clock_def strftime_def pad2_def pad4_def digit_char_def)
qed

lemma no_keyword_try:
  "\<not> relative_keyword s \<Longrightarrow>
   parse_date_try cal_parse now s
   = (case cal_parse s of
        None \<Rightarrow> Inl ParserError
      | Some dt \<Rightarrow> Inr (strftime (if time_is_min dt then dt\<lparr>hour := 9\<rparr> else dt)))"
  by (simp add: relative_keyword_def parse_date_try_def Let_def)

text \<open>
  C6. When the clock is not on the last day of year 9999, the resolver returns a stamp of
  the shape \<open>YYYY-MM-DD HH:MM:SS+00:00\<close> for every input and every behaviour of the
  calendar parser, and when no relative keyword occurs and the calendar parser fails, the
  stamp is that of the clock plus one day.
\<close>

theorem C6_resolver_total:
  assumes "year (next_day now) \<le> 9999"
  shows "\<exists>out. parse_date cal_parse now date_str = Inr out \<and> stamp_shape out
           \<and> (\<not> relative_keyword date_str \<and> cal_parse date_str = None
                \<longrightarrow> out = strftime (next_day now))"
proof (cases "parse_date_try cal_parse now date_str")
  case (Inr out)
  then have "stamp_shape out" by (rule parse_date_try_shape)
  moreover have "\<not> (\<not> relative_keyword date_str \<and> cal_parse date_str = None)"
  proof
    assume "\<not> relative_keyword date_str \<and> cal_parse date_str = None"
    then have "parse_date_try cal_parse now date_str = Inl ParserError"
      by (simp add: no_keyword_try)
    with Inr show False by simp
  qed
  ultimately show ?thesis using Inr by (auto simp: parse_date_def)
next
  case (Inl e)
  then show ?thesis
    using plus_days_one [OF assms]
    by (simp add: parse_date_def fmt_plus_days_def stamp_shape_strftime)
qed

lemma soon_no_keyword: "\<not> relative_keyword ''soon''"
  by code_simp

theorem C6_witness:
  "year (next_day sample_clock) \<le> 9999
   \<and> \<not> relative_keyword ''soon'' \<and> sample_calendar ''soon'' = None
   \<and> parse_date sample_calendar sample_clock ''soon'' = Inr ''2026-11-05 10:30:05+00:00''
   \<and> stamp_shape ''2026-11-05 10:30:05+00:00''"
proof -
  have y: "year (next_day sample_clock) \<le> 9999"
    by (simp add: sample_clock_1) (simp add: sample_clock_def)
  have n: "sample_calendar ''soon'' = None" by (simp add: sample_calendar_def)
  have s: "strftime (next_day sample_clock) = ''2026-11-05 10:30:05+00:00''"
    by (simp add: sample_clock_1) (simp add: sample_clock_def strftime_def pad2_def pad4_def digit_char_def)
  from C6_resolver_total [OF y, of sample_calendar "''soon''"]
  show ?thesis using y n soon_no_keyword s by auto
qed

lemma time_part_strftime:
  "time_part (strftime d) = pad2 (hour d) @ '':'' @ pad2 (minute d) @ '':'' @ pad2 (second d)"
  by (simp add: time_part_def strftime_def pad2_def pad4_def)

text \<open>
  C7, as amended. When no relative keyword occurs and the calendar parser returns a value,
  the stamp keeps the parsed time of day unless that time is midnight to the microsecond,
  and is at 09:00:00 when it is midnight, whether the phrase wrote the midnight or not.
\<close>

theorem C7_nonzero_time_kept_midnight_to_nine:
  assumes "\<not> relative_keyword s" and "cal_parse s = Some dt"
  shows "\<exists>out. parse_date cal_parse now s = Inr out
           \<and> out = strftime (if time_is_min dt then dt\<lparr>hour := 9\<rparr> else dt)
           \<and> time_part out
             = (if time_is_min dt then ''09:00:00''
                else pad2 (hour dt) @ '':'' @ pad2 (minute dt) @ '':'' @ pad2 (second dt))"
  using assms
  by (simp add: parse_date_def no_keyword_try time_part_strftime)
     (simp add: time_is_min_def pad2_def digit_char_def)

lemma pm_no_keyword: "\<not> relative_keyword ''August 15 3pm''"
  by code_simp

lemma midnight_no_keyword: "\<not> relative_keyword ''August 15 00:00''"
  by code_simp

theorem C7_witness:
  "\<not> relative_keyword ''August 15 3pm''
   \<and> sample_calendar ''August 15 3pm'' = Some (august_15\<lparr>hour := 15\<rparr>)
   \<and> parse_date sample_calendar sample_clock ''August 15 3pm'' = Inr ''2026-08-15 15:00:00+00:00''"
proof -
  have c: "sample_calendar ''August 15 3pm'' = Some (august_15\<lparr>hour := 15\<rparr>)"
    by (simp add: sample_calendar_def)
  from C7_nonzero_time_kept_midnight_to_nine
         [where s = "''August 15 3pm''" and cal_parse = sample_calendar and now = sample_clock,
          OF pm_no_keyword c]
  show ?thesis using pm_no_keyword c
    by (simp add: time_is_min_def august_15_def strftime_def pad2_def pad4_def digit_char_def)
qed

text \<open>
  The claim C7 as stated fails on a phrase that writes midnight: the calendar parser reads
  \<open>August 15 00:00\<close> as midnight, and the stamp is at 09:00:00.
\<close>

theorem C7_explicit_midnight_counterexample:
  "sample_calendar ''August 15 00:00'' = Some august_15
   \<and> strftime august_15 = ''2026-08-15 00:00:00+00:00''
   \<and> parse_date sample_calendar sample_clock ''August 15 00:00'' = Inr ''2026-08-15 09:00:00+00:00''"
proof -
  have c: "sample_calendar ''August 15 00:00'' = Some august_15"
    by (simp add: sample_calendar_def)
  show ?thesis
    using c
    by (simp add: parse_date_def no_keyword_try [OF midnight_no_keyword])
       (simp add: time_is_min_def august_15_def strftime_def pad2_def pad4_def digit_char_def)
qed

end
